theory Spec2Isabelle
  imports Main "HOL-Library.Word"
begin

unbundle bit_operations_syntax

section \<open>The backing buffer of a BidiTrieContainer\<close>

text \<open>
  The container of \<^verbatim>\<open>strie.js\<close> owns one ArrayBuffer seen through two typed arrays,
  \<^verbatim>\<open>buf8\<close> (bytes) and \<^verbatim>\<open>buf32\<close> (32-bit words, in the byte order of the host, taken
  as little-endian here, which is what the source assumes for its native path). The model keeps
  the words and derives the bytes: byte \<open>i\<close> is byte \<open>i mod 4\<close> of word \<open>i div 4\<close>.
  A typed array read outside the array yields \<^verbatim>\<open>undefined\<close> (\<open>None\<close>), and so does a read
  at an index that is not a number; a write outside the array is ignored.
\<close>

type_synonym u8 = "8 word"
type_synonym u32 = "32 word"

definition PAGE_SIZE :: nat where "PAGE_SIZE = 65536 * 2"
definition HAYSTACK_START :: nat where "HAYSTACK_START = 0"
definition HAYSTACK_SIZE :: nat where "HAYSTACK_SIZE = 2048"
definition HAYSTACK_SIZE_SLOT :: nat where "HAYSTACK_SIZE_SLOT = HAYSTACK_SIZE div 4"
definition TRIE0_SLOT :: nat where "TRIE0_SLOT = HAYSTACK_SIZE_SLOT + 1"
definition TRIE1_SLOT :: nat where "TRIE1_SLOT = HAYSTACK_SIZE_SLOT + 2"
definition CHAR0_SLOT :: nat where "CHAR0_SLOT = HAYSTACK_SIZE_SLOT + 3"
definition CHAR1_SLOT :: nat where "CHAR1_SLOT = HAYSTACK_SIZE_SLOT + 4"
definition TRIE0_START :: nat where "TRIE0_START = (HAYSTACK_SIZE_SLOT + 5) * 4"

definition CELL_BYTE_LENGTH :: nat where "CELL_BYTE_LENGTH = 12"
definition MIN_FREE_CELL_BYTE_LENGTH :: nat where "MIN_FREE_CELL_BYTE_LENGTH = CELL_BYTE_LENGTH * 8"

definition CELL_AND :: nat where "CELL_AND = 0"
definition CELL_OR :: nat where "CELL_OR = 1"
definition SEGMENT_INFO :: nat where "SEGMENT_INFO = 2"
definition BCELL_NEXT_AND :: nat where "BCELL_NEXT_AND = 0"
definition BCELL_ALT_AND :: nat where "BCELL_ALT_AND = 1"
definition BCELL_EXTRA :: nat where "BCELL_EXTRA = 2"
definition BCELL_EXTRA_MAX :: u32 where "BCELL_EXTRA_MAX = 0x00FFFFFF"

record container =
  buf32 :: "nat \<Rightarrow> u32"
  buflen :: nat
  haystackLen :: int
  extraHandler :: "int \<Rightarrow> int \<Rightarrow> nat \<Rightarrow> int"
  res_l :: int
  res_r :: int
  res_iu :: int

text \<open>
  \<open>buflen\<close> is \<^verbatim>\<open>buf32.length\<close>, so \<^verbatim>\<open>buf8.length\<close> is \<open>4 * buflen\<close>; \<open>res_l\<close>, \<open>res_r\<close>
  and \<open>res_iu\<close> are the properties \<^verbatim>\<open>$l\<close>, \<^verbatim>\<open>$r\<close> and \<^verbatim>\<open>$iu\<close>. The handler is taken
  to be a function of its three arguments.

  \<^verbatim>\<open>buf32[k]\<close> for a cell word. A cell index read from a cell outside the buffer is
  \<^verbatim>\<open>undefined\<close>, an index computed from it is \<^verbatim>\<open>NaN\<close>, and a read there is
  \<^verbatim>\<open>undefined\<close> again: \<open>None\<close> stands for both.
\<close>

definition rd32 :: "container \<Rightarrow> nat option \<Rightarrow> u32 option" where
  "rd32 c k = (case k of None \<Rightarrow> None
     | Some n \<Rightarrow> if n < buflen c then Some (buf32 c n) else None)"

definition cell_ix :: "nat option \<Rightarrow> nat \<Rightarrow> nat option" where
  "cell_ix icell k = map_option (\<lambda>n. n + k) icell"

definition as_index :: "u32 option \<Rightarrow> nat option" where
  "as_index v = map_option unat v"

text \<open>A value read from a typed array and used by a bitwise operator or stored into
  \<^verbatim>\<open>buf32\<close>: \<^verbatim>\<open>undefined\<close> counts as 0.\<close>

definition to_u32 :: "u32 option \<Rightarrow> u32" where
  "to_u32 v = (case v of None \<Rightarrow> 0 | Some w \<Rightarrow> w)"

text \<open>\<^verbatim>\<open>buf32[k] = v\<close>\<close>

definition wr32 :: "container \<Rightarrow> nat option \<Rightarrow> u32 \<Rightarrow> container" where
  "wr32 c k v = (case k of None \<Rightarrow> c
     | Some n \<Rightarrow> if n < buflen c then c\<lparr>buf32 := (buf32 c)(n := v)\<rparr> else c)"

definition byte_of :: "u32 \<Rightarrow> nat \<Rightarrow> u8" where
  "byte_of w k = ucast (drop_bit (8 * k) w)"

text \<open>\<^verbatim>\<open>buf8[i]\<close>, for a number \<open>i\<close>\<close>

definition rd8 :: "container \<Rightarrow> int \<Rightarrow> u8 option" where
  "rd8 c i = (if 0 \<le> i \<and> i < 4 * int (buflen c)
     then Some (byte_of (buf32 c (nat i div 4)) (nat i mod 4)) else None)"

text \<open>\<^verbatim>\<open>buf8[i] = b\<close>\<close>

definition wr8 :: "container \<Rightarrow> int \<Rightarrow> u8 \<Rightarrow> container" where
  "wr8 c i b =
     (if 0 \<le> i \<and> i < 4 * int (buflen c)
      then c\<lparr>buf32 := (buf32 c)(nat i div 4 :=
             (buf32 c (nat i div 4) AND NOT (push_bit (8 * (nat i mod 4)) 0xFF))
               OR push_bit (8 * (nat i mod 4)) (ucast b))\<rparr>
      else c)"

text \<open>
  The five header slots. The constructor allocates at least four pages and every later
  buffer length is rounded up to the page size, so the slots are inside the buffer and are
  read as numbers.
\<close>

definition hdr :: "container \<Rightarrow> nat \<Rightarrow> int" where
  "hdr c slot = uint (buf32 c slot)"

text \<open>\<^verbatim>\<open>v & 0x00FFFFFF\<close> and \<^verbatim>\<open>v >>> 24\<close>, as numbers.\<close>

definition seg_offset :: "u32 \<Rightarrow> int" where
  "seg_offset v = uint (v AND 0x00FFFFFF)"

definition seg_length :: "u32 \<Rightarrow> int" where
  "seg_length v = uint (drop_bit 24 v)"

text \<open>\<^verbatim>\<open>ToInt32\<close>, the conversion every bitwise operator of JavaScript applies first.\<close>

definition to_int32 :: "int \<Rightarrow> int" where
  "to_int32 x = sint (word_of_int x :: u32)"

definition roundToPageSize :: "int \<Rightarrow> int" where
  "roundToPageSize v =
     sint ((word_of_int (v + int PAGE_SIZE - 1) :: u32) AND NOT (word_of_int (int PAGE_SIZE - 1)))"

text \<open>\<^verbatim>\<open>len << 24 | off\<close>, stored into \<^verbatim>\<open>buf32\<close>.\<close>

definition seg_word :: "int \<Rightarrow> int \<Rightarrow> u32" where
  "seg_word len off = push_bit 24 (word_of_int len) OR word_of_int off"

definition toSegmentInfo :: "int \<Rightarrow> int \<Rightarrow> int \<Rightarrow> u32" where
  "toSegmentInfo aL l r = seg_word (r - l) (aL + l)"

text \<open>\<^verbatim>\<open>v <= BCELL_EXTRA_MAX\<close> and \<^verbatim>\<open>v > BCELL_EXTRA_MAX\<close> for a value read from
  \<^verbatim>\<open>buf32\<close>: both are false when the value is \<^verbatim>\<open>undefined\<close>.\<close>

definition le_max :: "u32 option \<Rightarrow> bool" where
  "le_max v = (case v of None \<Rightarrow> False | Some x \<Rightarrow> x \<le> BCELL_EXTRA_MAX)"

definition gt_max :: "u32 option \<Rightarrow> bool" where
  "gt_max v = (case v of None \<Rightarrow> False | Some x \<Rightarrow> x > BCELL_EXTRA_MAX)"

section \<open>Construction and reset\<close>

text \<open>
  \<^verbatim>\<open>new BidiTrieContainer(details, extraHandler)\<close>. The two fields of \<^verbatim>\<open>details\<close> are
  numbers; an absent field behaves as 0 does, through \<^verbatim>\<open>||\<close>. A fresh buffer holds zeros.
\<close>

definition new_container :: "int \<Rightarrow> u32 \<Rightarrow> (int \<Rightarrow> int \<Rightarrow> nat \<Rightarrow> int) \<Rightarrow> container" where
  "new_container byteLength char0 handler =
     (let len = roundToPageSize byteLength;
          minInitialSize = int PAGE_SIZE * 4;
          c = \<lparr>buf32 = (\<lambda>_. 0), buflen = nat (max len minInitialSize) div 4, haystackLen = 0,
               extraHandler = handler, res_l = 0, res_r = 0, res_iu = 0\<rparr>;
          c1 = wr32 c (Some TRIE0_SLOT) (of_nat TRIE0_START);
          c2 = wr32 c1 (Some TRIE1_SLOT) (to_u32 (rd32 c1 (Some TRIE0_SLOT)));
          c3 = wr32 c2 (Some CHAR0_SLOT)
                 (if char0 \<noteq> 0 then char0 else of_nat (PAGE_SIZE * 4 div 2))
      in wr32 c3 (Some CHAR1_SLOT) (to_u32 (rd32 c3 (Some CHAR0_SLOT))))"

definition reset :: "container \<Rightarrow> container" where
  "reset c =
     (let c1 = wr32 c (Some TRIE1_SLOT) (to_u32 (rd32 c (Some TRIE0_SLOT)))
      in wr32 c1 (Some CHAR1_SLOT) (to_u32 (rd32 c1 (Some CHAR0_SLOT))))"

text \<open>
  The bytes of a string, written one after the other from a position on.
\<close>

fun wr8s :: "container \<Rightarrow> int \<Rightarrow> u8 list \<Rightarrow> container" where
  "wr8s c i [] = c"
| "wr8s c i (b # bs) = wr8s (wr8 c i b) (i + 1) bs"

definition bytes_of :: "string \<Rightarrow> u8 list" where
  "bytes_of s = map of_char s"

text \<open>
  Modelled from the spec: the haystack handoff. It is done by the callers of the container,
  which are code of the repository that is not in \<^verbatim>\<open>strie.js\<close>. The spec says: ``the first 2048
  bytes of the buffer are a shared haystack window; callers write their input there and set
  \<^verbatim>\<open>haystackLen\<close> before calling \<^verbatim>\<open>matches\<close>''. The container offers the window as the
  subarray \<^verbatim>\<open>haystack\<close> (constructor, lines 143 to 146) and the length as the property
  \<^verbatim>\<open>haystackLen\<close> (line 147), the one \<^verbatim>\<open>matches\<close> reads (line 170); a write through a
  subarray of 2048 bytes does not reach past it.
\<close>

definition set_haystack :: "container \<Rightarrow> string \<Rightarrow> container" where
  "set_haystack c s =
     (wr8s c (int HAYSTACK_START) (take HAYSTACK_SIZE (bytes_of s)))\<lparr>haystackLen := int (length s)\<rparr>"

section \<open>Growing the buffer, storing strings, allocating cells\<close>

datatype error = RangeError

text \<open>
  The bytes of a buffer, and a buffer from its bytes: \<^verbatim>\<open>Uint8Array.set\<close>, \<^verbatim>\<open>subarray\<close> and
  \<^verbatim>\<open>copyWithin\<close> move bytes, not words.
\<close>

definition raw8 :: "(nat \<Rightarrow> u32) \<Rightarrow> nat \<Rightarrow> u8" where
  "raw8 m i = byte_of (m (i div 4)) (i mod 4)"

definition pack32 :: "(nat \<Rightarrow> u8) \<Rightarrow> nat \<Rightarrow> u32" where
  "pack32 f k = ucast (f (4 * k)) OR push_bit 8 (ucast (f (4 * k + 1)))
       OR push_bit 16 (ucast (f (4 * k + 2))) OR push_bit 24 (ucast (f (4 * k + 3)))"

text \<open>
  \<^verbatim>\<open>resizeBuf(bufLen, char0)\<close>, on the path without a WebAssembly memory. A typed array of
  negative length, and a \<^verbatim>\<open>set\<close> that would write past the end of its target, throw a
  RangeError; \<^verbatim>\<open>subarray\<close> and \<^verbatim>\<open>copyWithin\<close> clamp their bounds to the array.
\<close>

definition resizeBuf :: "container \<Rightarrow> int \<Rightarrow> int \<Rightarrow> error + container" where
  "resizeBuf c bufLen0 char0 =
     (let bufLen = roundToPageSize bufLen0;
          len = 4 * buflen c;
          trie1 = nat (hdr c TRIE1_SLOT);
          ochar0 = nat (hdr c CHAR0_SLOT);
          ochar1 = nat (hdr c CHAR1_SLOT)
      in if bufLen = int len \<and> char0 = hdr c CHAR0_SLOT then Inr c
         else
           let charDataLen = hdr c CHAR1_SLOT - hdr c CHAR0_SLOT
           in if bufLen \<noteq> int len then
                (let tlen = min trie1 len;
                     from = min ochar0 len;
                     clen = min ochar1 len - from
                 in if bufLen < 0 \<or> int tlen > bufLen \<or> char0 < 0 \<or> char0 + int clen > bufLen
                    then Inl RangeError
                    else
                      let old = raw8 (buf32 c);
                          nb = (\<lambda>i. if nat char0 \<le> i \<and> i < nat char0 + clen
                                     then old (from + (i - nat char0))
                                     else if i < tlen then old i else 0);
                          c1 = c\<lparr>buf32 := pack32 nb, buflen := nat bufLen div 4\<rparr>;
                          c2 = wr32 c1 (Some CHAR0_SLOT) (word_of_int char0)
                      in Inr (wr32 c2 (Some CHAR1_SLOT) (word_of_int (char0 + charDataLen))))
              else
                (let to = min (nat char0) len;
                     from = min ochar0 len;
                     cnt = min (min ochar1 len - from) (len - to);
                     old = raw8 (buf32 c);
                     nb = (\<lambda>i. if to \<le> i \<and> i < to + cnt then old (from + (i - to)) else old i);
                     c1 = c\<lparr>buf32 := pack32 nb\<rparr>;
                     c2 = wr32 c1 (Some CHAR0_SLOT) (word_of_int char0)
                 in Inr (wr32 c2 (Some CHAR1_SLOT) (word_of_int (char0 + charDataLen)))))"

definition growBuf :: "container \<Rightarrow> int \<Rightarrow> int \<Rightarrow> error + container" where
  "growBuf c trieGrow charGrow =
     (let char0 = max (roundToPageSize (hdr c TRIE1_SLOT + trieGrow)) (hdr c CHAR0_SLOT);
          char1 = char0 + hdr c CHAR1_SLOT - hdr c CHAR0_SLOT;
          bufLen = max (roundToPageSize (char1 + charGrow)) (4 * int (buflen c))
      in resizeBuf c bufLen char0)"

definition shrinkBuf :: "container \<Rightarrow> error + container" where
  "shrinkBuf c =
     (let char0 = hdr c TRIE1_SLOT + int MIN_FREE_CELL_BYTE_LENGTH;
          char1 = char0 + hdr c CHAR1_SLOT - hdr c CHAR0_SLOT;
          bufLen = char1 + 256
      in resizeBuf c bufLen char0)"

text \<open>
  \<^verbatim>\<open>storeString(s)\<close>. A string is modelled by its char codes, taken to be below 256 (uBO
  stores URL patterns); the offset of the stored bytes relative to \<^verbatim>\<open>char0\<close> is returned.
\<close>

definition storeString :: "container \<Rightarrow> string \<Rightarrow> error + int \<times> container" where
  "storeString c s =
     (let n = int (length s)
      in case (if 4 * int (buflen c) - hdr c CHAR1_SLOT < n then growBuf c 0 n else Inr c) of
           Inl e \<Rightarrow> Inl e
         | Inr c1 \<Rightarrow>
             let offset = hdr c1 CHAR1_SLOT;
                 c2 = wr32 c1 (Some CHAR1_SLOT) (word_of_int (offset + n));
                 c3 = wr8s c2 offset (bytes_of s)
             in Inr (offset - hdr c3 CHAR0_SLOT, c3))"

definition allocateCell :: "container \<Rightarrow> nat \<times> container" where
  "allocateCell c =
     (let t = buf32 c TRIE1_SLOT;
          c1 = wr32 c (Some TRIE1_SLOT) (t + of_nat CELL_BYTE_LENGTH);
          icell = unat (drop_bit 2 t);
          c2 = wr32 c1 (Some (icell + 0)) 0;
          c3 = wr32 c2 (Some (icell + 1)) 0;
          c4 = wr32 c3 (Some (icell + 2)) 0
      in (icell, c4))"

definition addCell :: "container \<Rightarrow> u32 \<Rightarrow> u32 \<Rightarrow> u32 \<Rightarrow> nat \<times> container" where
  "addCell c iand ior v =
     (let (icell, c1) = allocateCell c;
          c2 = wr32 c1 (Some (icell + CELL_AND)) iand;
          c3 = wr32 c2 (Some (icell + CELL_OR)) ior;
          c4 = wr32 c3 (Some (icell + SEGMENT_INFO)) v
      in (icell, c4))"

text \<open>\<^verbatim>\<open>createOne()\<close> without arguments: the root cell of a new trie.\<close>

definition createOne :: "container \<Rightarrow> error + nat \<times> container" where
  "createOne c =
     (case (if hdr c CHAR0_SLOT - hdr c TRIE1_SLOT < int CELL_BYTE_LENGTH
            then growBuf c (int CELL_BYTE_LENGTH) 0 else Inr c) of
        Inl e \<Rightarrow> Inl e
      | Inr c1 \<Rightarrow>
          let iroot = unat (drop_bit 2 (buf32 c1 TRIE1_SLOT));
              c2 = wr32 c1 (Some TRIE1_SLOT) (buf32 c1 TRIE1_SLOT + of_nat CELL_BYTE_LENGTH);
              c3 = wr32 c2 (Some (iroot + CELL_OR)) 0;
              c4 = wr32 c3 (Some (iroot + CELL_AND)) 0;
              c5 = wr32 c4 (Some (iroot + SEGMENT_INFO)) 0
          in Inr (iroot, c5))"

section \<open>add and addLeft\<close>

text \<open>
  The loop of \<^verbatim>\<open>addLeft\<close> that finds the first mismatch in the rest of a segment, walking
  down from \<open>br\<close> and \<open>ar\<close>; it returns their final values.
\<close>

partial_function (option) addLeft_scan ::
  "container \<Rightarrow> int \<Rightarrow> int \<Rightarrow> int \<Rightarrow> int \<Rightarrow> (int \<times> int) option"
where
  "addLeft_scan c bL aL br ar =
     (if br = bL then Some (br, ar)
      else if ar = 0 then Some (br, ar)
      else if rd8 c (br - 1) \<noteq> rd8 c (aL + ar - 1) then Some (br, ar)
      else addLeft_scan c bL aL (br - 1) (ar - 1))"

text \<open>
  The \<^verbatim>\<open>for (;;)\<close> loop of \<^verbatim>\<open>addLeft\<close>. The result is the boundary cell returned and the
  container after the insertion.
\<close>

partial_function (option) addLeft_loop ::
  "container \<Rightarrow> int \<Rightarrow> nat option \<Rightarrow> int \<Rightarrow> (nat option \<times> container) option"
where
  "addLeft_loop c aL0 icell ar =
     (let char0 = hdr c CHAR0_SLOT;
          aL = aL0 + char0;
          binfo = rd32 c (cell_ix icell SEGMENT_INFO)
      in if le_max binfo then
           (let inext = rd32 c (cell_ix icell CELL_AND)
            in if inext \<noteq> Some 0 then addLeft_loop c aL0 (as_index inext) ar
               else let (iboundary, c1) = allocateCell c;
                        (inew, c2) = addCell c1 (of_nat iboundary) 0 (toSegmentInfo aL0 0 ar);
                        c3 = wr32 c2 (cell_ix icell CELL_AND) (of_nat inew)
                    in Some (Some iboundary, c3))
         else
           let bL = char0 + seg_offset (to_u32 binfo);
               bR = bL + seg_length (to_u32 binfo)
           in if rd8 c (bR - 1) \<noteq> rd8 c (aL + ar - 1) then
                (let inext = rd32 c (cell_ix icell CELL_OR)
                 in if inext = Some 0 then
                      (let (iboundary, c1) = allocateCell c;
                           (inew, c2) = addCell c1 (of_nat iboundary) 0 (toSegmentInfo aL0 0 ar);
                           c3 = wr32 c2 (cell_ix icell CELL_OR) (of_nat inew)
                       in Some (Some iboundary, c3))
                    else addLeft_loop c aL0 (as_index inext) ar)
              else
                Option.bind
                  (if bR - 1 \<noteq> bL then addLeft_scan c bL aL (bR - 1) (ar - 1)
                   else Some (bR - 1, ar - 1))
                  (\<lambda>(br, ar1).
                    if br = bL then
                      (let inext = rd32 c (cell_ix icell CELL_AND)
                       in if ar1 = 0 then
                            (if le_max (rd32 c (cell_ix (as_index inext) BCELL_EXTRA))
                             then Some (as_index inext, c)
                             else let (iboundary, c1) = allocateCell c;
                                      c2 = wr32 c1 (Some (iboundary + CELL_AND)) (to_u32 inext);
                                      c3 = wr32 c2 (cell_ix icell CELL_AND) (of_nat iboundary)
                                  in Some (Some iboundary, c3))
                          else if inext \<noteq> Some 0 then addLeft_loop c aL0 (as_index inext) ar1
                          else
                            let (ib, c1) = addCell c 0 0 0;
                                c2 = wr32 c1 (cell_ix icell CELL_AND) (of_nat ib);
                                (inew, c3) = addCell c2 0 0 (toSegmentInfo aL0 0 ar1);
                                c4 = wr32 c3 (Some (ib + CELL_AND)) (of_nat inew)
                            in addLeft_loop c4 aL0 icell ar1)
                    else
                      (let c1 = wr32 c (cell_ix icell SEGMENT_INFO) (seg_word (bR - br) (br - char0));
                           (inext, c2) = addCell c1 (to_u32 (rd32 c1 (cell_ix icell CELL_AND))) 0
                                           (seg_word (br - bL) (bL - char0))
                       in if ar1 = 0 then
                            (let (iboundary, c3) = allocateCell c2;
                                 c4 = wr32 c3 (cell_ix icell CELL_AND) (of_nat iboundary);
                                 c5 = wr32 c4 (Some (iboundary + CELL_AND)) (of_nat inext)
                             in Some (Some iboundary, c5))
                          else
                            (let c3 = wr32 c2 (cell_ix icell CELL_AND) (of_nat inext);
                                 (iboundary, c4) = allocateCell c3;
                                 (inew, c5) = addCell c4 (of_nat iboundary) 0 (toSegmentInfo aL0 0 ar1);
                                 c6 = wr32 c5 (Some (inext + CELL_OR)) (of_nat inew)
                             in Some (Some iboundary, c6)))))"

text \<open>\<^verbatim>\<open>addLeft(icell, aL0, pivot)\<close>\<close>

definition addLeft :: "container \<Rightarrow> nat \<Rightarrow> int \<Rightarrow> int \<Rightarrow> (nat option \<times> container) option" where
  "addLeft c icell aL0 pivot =
     (let iboundary0 = rd32 c (Some (icell + CELL_AND));
          added = (iboundary0 = Some 0
                   \<or> gt_max (rd32 c (cell_ix (as_index iboundary0) SEGMENT_INFO)));
          (iboundary, c1) =
             (if added then
                (let (ib, c1) = allocateCell c;
                     c2 = wr32 c1 (Some (icell + CELL_AND)) (of_nat ib);
                     c3 = wr32 c2 (Some (ib + BCELL_NEXT_AND)) (to_u32 iboundary0)
                 in (Some ib, c3))
              else (as_index iboundary0, c))
      in if added \<and> pivot = 0 then Some (iboundary, c1)
         else if rd32 c1 (cell_ix iboundary BCELL_EXTRA) = Some 1 then Some (iboundary, c1)
         else if pivot = 0 then Some (iboundary, c1)
         else
           let icell0 = rd32 c1 (cell_ix iboundary BCELL_ALT_AND);
               (ileft, c2) =
                  (if icell0 = Some 0 then
                     (let (k, c2) = allocateCell c1
                      in (Some k, wr32 c2 (cell_ix iboundary BCELL_ALT_AND) (of_nat k)))
                   else (as_index icell0, c1))
           in if rd32 c2 (cell_ix ileft SEGMENT_INFO) = Some 0 then
                (let c3 = wr32 c2 (cell_ix ileft SEGMENT_INFO) (toSegmentInfo aL0 0 pivot);
                     (ib, c4) = allocateCell c3;
                     c5 = wr32 c4 (cell_ix ileft CELL_AND) (of_nat ib)
                 in Some (Some ib, c5))
              else addLeft_loop c2 aL0 ileft pivot)"

text \<open>The loop of \<^verbatim>\<open>add\<close> that finds the first mismatch in the rest of a segment.\<close>

partial_function (option) add_scan ::
  "container \<Rightarrow> int \<Rightarrow> int \<Rightarrow> int \<Rightarrow> int \<Rightarrow> int \<Rightarrow> int \<Rightarrow> (int \<times> int) option"
where
  "add_scan c bl aL bR aR bi al =
     (if bi = bR then Some (bi, al)
      else if al = aR then Some (bi, al)
      else if rd8 c (bl + bi) \<noteq> rd8 c (aL + al) then Some (bi, al)
      else add_scan c bl aL bR aR (bi + 1) (al + 1))"

text \<open>
  The \<^verbatim>\<open>for (;;)\<close> loop of \<^verbatim>\<open>add\<close>. Once \<open>icell\<close> is \<^verbatim>\<open>undefined\<close> the segment length
  reads as 0 and the loop follows \<^verbatim>\<open>undefined\<close> for ever.
\<close>

partial_function (option) add_loop ::
  "container \<Rightarrow> int \<Rightarrow> int \<Rightarrow> int \<Rightarrow> nat option \<Rightarrow> int \<Rightarrow> (nat option \<times> container) option"
where
  "add_loop c aL0 aR pivot icell al =
     (case icell of
        None \<Rightarrow> add_loop c aL0 aR pivot None al
      | Some k \<Rightarrow>
         (let char0 = hdr c CHAR0_SLOT;
              aL = char0 + aL0;
              binfo = to_u32 (rd32 c (Some (k + SEGMENT_INFO)));
              bR = seg_length binfo
          in if bR = 0 then
               add_loop c aL0 aR pivot (as_index (rd32 c (Some (k + BCELL_NEXT_AND)))) al
             else
               let bl = char0 + seg_offset binfo
               in if rd8 c bl \<noteq> rd8 c (aL + al) then
                    (let inext = rd32 c (Some (k + CELL_OR))
                     in if inext = Some 0 then
                          (let (inew, c1) = addCell c 0 0 (toSegmentInfo aL0 al aR);
                               c2 = wr32 c1 (Some (k + CELL_OR)) (of_nat inew)
                           in addLeft c2 inew aL0 pivot)
                        else add_loop c aL0 aR pivot (as_index inext) al)
                  else
                    Option.bind
                      (if bR \<noteq> 1 then add_scan c bl aL bR aR 1 (al + 1) else Some (1, al + 1))
                      (\<lambda>(bi, al1).
                        if bi = bR then
                          (if al1 = aR then addLeft c k aL0 pivot
                           else
                             let inext = rd32 c (Some (k + CELL_AND))
                             in if rd32 c (cell_ix (as_index inext) CELL_AND) \<noteq> Some 0
                                then add_loop c aL0 aR pivot (as_index inext) al1
                                else
                                  let (inew, c1) = addCell c 0 0 (toSegmentInfo aL0 al1 aR);
                                      c2 = wr32 c1 (cell_ix (as_index inext) CELL_AND) (of_nat inew)
                                  in addLeft c2 inew aL0 pivot)
                        else
                          (let c1 = wr32 c (Some (k + SEGMENT_INFO)) (seg_word bi (bl - char0));
                               (inext, c2) = addCell c1 (to_u32 (rd32 c1 (Some (k + CELL_AND)))) 0
                                               (seg_word (bR - bi) (bl - char0 + bi));
                               c3 = wr32 c2 (Some (k + CELL_AND)) (of_nat inext)
                           in if al1 = aR then addLeft c3 k aL0 pivot
                              else
                                let (inew, c4) = addCell c3 0 0 (toSegmentInfo aL0 al1 aR);
                                    c5 = wr32 c4 (Some (inext + CELL_OR)) (of_nat inew)
                                in addLeft c5 inew aL0 pivot))))"

text \<open>
  \<^verbatim>\<open>add(iroot, aL0, n, pivot)\<close>. The result is \<open>None\<close> when the call does not return,
  \<open>Inl\<close> when growing the buffer throws, else the value returned and the container.
\<close>

definition add ::
  "container \<Rightarrow> nat \<Rightarrow> int \<Rightarrow> int \<Rightarrow> int \<Rightarrow> (error + nat option \<times> container) option" where
  "add c iroot aL0 n pivot =
     (if n = 0 then Some (Inr (Some 0, c))
      else
        case (if hdr c CHAR0_SLOT - hdr c TRIE1_SLOT < int MIN_FREE_CELL_BYTE_LENGTH
              then growBuf c (int MIN_FREE_CELL_BYTE_LENGTH) 0 else Inr c) of
          Inl e \<Rightarrow> Some (Inl e)
        | Inr c1 \<Rightarrow>
            map_option Inr
              (if rd32 c1 (Some (iroot + SEGMENT_INFO)) = Some 0 then
                 addLeft (wr32 c1 (Some (iroot + SEGMENT_INFO)) (toSegmentInfo aL0 pivot n))
                   iroot aL0 pivot
               else add_loop c1 aL0 n pivot (Some iroot) pivot))"

section \<open>The trie handle\<close>

record STrieRef =
  ref_iroot :: nat
  ref_size :: nat

definition setExtra :: "container \<Rightarrow> nat option \<Rightarrow> u32 \<Rightarrow> container" where
  "setExtra c iboundary v = wr32 c (cell_ix iboundary BCELL_EXTRA) v"

definition getExtra :: "container \<Rightarrow> nat option \<Rightarrow> u32 option" where
  "getExtra c iboundary = rd32 c (cell_ix iboundary BCELL_EXTRA)"

text \<open>\<^verbatim>\<open>STrieRef.add(i, n, pivot)\<close>: the size grows unless the boundary returned is 0.\<close>

definition ref_add ::
  "container \<Rightarrow> STrieRef \<Rightarrow> int \<Rightarrow> int \<Rightarrow> int
     \<Rightarrow> (error + nat option \<times> STrieRef \<times> container) option" where
  "ref_add c t i n pivot =
     map_option
       (map_sum id (\<lambda>(iboundary, c').
          (iboundary, (if iboundary \<noteq> Some 0 then t\<lparr>ref_size := ref_size t + 1\<rparr> else t), c')))
       (add c (ref_iroot t) i n pivot)"

section \<open>matches and matchesLeft\<close>

text \<open>
  The inner loop of \<^verbatim>\<open>matches\<close>: walk the \<^verbatim>\<open>OR\<close> chain from \<open>icell\<close> to the first cell
  whose segment starts with the byte \<open>ch\<close>. The result is \<open>None\<close> for
  \<^verbatim>\<open>return false\<close>, else the cell, its segment word and the position \<open>bl\<close> of its first
  byte. All loops of this section are partial functions: not returning is \<open>None\<close>.
\<close>

partial_function (option) matches_seek ::
  "container \<Rightarrow> int \<Rightarrow> u8 option \<Rightarrow> nat option \<Rightarrow> (nat option \<times> u32 \<times> int) option option"
where
  "matches_seek c char0 ch icell =
     (let v = to_u32 (rd32 c (cell_ix icell SEGMENT_INFO));
          bl = char0 + seg_offset v
      in if rd8 c bl = ch then Some (Some (icell, v, bl))
         else let inext = rd32 c (cell_ix icell CELL_OR)
              in if inext = Some 0 then Some None
                 else matches_seek c char0 ch (as_index inext))"

text \<open>
  The \<^verbatim>\<open>do ... while ( i !== ar )\<close> loop of \<^verbatim>\<open>matches\<close>: \<open>False\<close> is
  \<^verbatim>\<open>return false\<close>, \<open>True\<close> is the exit of the loop, where \<open>i = ar\<close>.
\<close>

partial_function (option) matches_rest :: "container \<Rightarrow> int \<Rightarrow> int \<Rightarrow> int \<Rightarrow> bool option"
where
  "matches_rest c i j ar =
     (if rd8 c i \<noteq> rd8 c j then Some False
      else if i + 1 = ar then Some True
      else matches_rest c (i + 1) (j + 1) ar)"

partial_function (option) matchesLeft_seek ::
  "container \<Rightarrow> int \<Rightarrow> u8 option \<Rightarrow> nat option \<Rightarrow> (nat option \<times> int \<times> int) option option"
where
  "matchesLeft_seek c char0 ch icell =
     (let v = to_u32 (rd32 c (cell_ix icell SEGMENT_INFO));
          n = seg_length v - 1;
          br = char0 + seg_offset v + n
      in if rd8 c br = ch then Some (Some (icell, n, br))
         else let inext = rd32 c (cell_ix icell CELL_OR)
              in if inext = Some 0 then Some None
                 else matchesLeft_seek c char0 ch (as_index inext))"

partial_function (option) matchesLeft_rest :: "container \<Rightarrow> int \<Rightarrow> int \<Rightarrow> int \<Rightarrow> bool option"
where
  "matchesLeft_rest c i j al =
     (if rd8 c (i - 1) \<noteq> rd8 c (j - 1) then Some False
      else if i - 1 = al then Some True
      else matchesLeft_rest c (i - 1) (j - 1) al)"

text \<open>
  Acceptance at a boundary cell whose \<^verbatim>\<open>EXTRA\<close> word \<open>ix\<close> is not 0:
  \<^verbatim>\<open>ix === 1 ? -1 : this.extraHandler(l, r, ix)\<close>.
\<close>

definition extra_iu :: "container \<Rightarrow> int \<Rightarrow> int \<Rightarrow> u32 \<Rightarrow> int" where
  "extra_iu c l r ix = (if ix = 1 then - 1 else extraHandler c l r (unat ix))"

definition set_result :: "container \<Rightarrow> int \<Rightarrow> int \<Rightarrow> int \<Rightarrow> container" where
  "set_result c l r iu = c\<lparr>res_l := l, res_r := r, res_iu := iu\<rparr>"

text \<open>The outer loop of \<^verbatim>\<open>matchesLeft(iroot, i, r)\<close>, entered with \<open>ar\<close> not yet decremented.\<close>

partial_function (option) matchesLeft_loop ::
  "container \<Rightarrow> int \<Rightarrow> int \<Rightarrow> nat option \<Rightarrow> int \<Rightarrow> (bool \<times> container) option"
where
  "matchesLeft_loop c char0 r icell ar0 =
     (let ar = ar0 - 1; ch = rd8 c ar
      in Option.bind (matchesLeft_seek c char0 ch icell) (\<lambda>found.
         case found of None \<Rightarrow> Some (False, c)
         | Some (icell1, n, br) \<Rightarrow>
             Option.bind
               (if n \<noteq> 0 then
                  (if ar - n < 0 then Some None
                   else Option.bind (matchesLeft_rest c ar br (ar - n))
                          (\<lambda>ok. Some (if ok then Some (ar - n) else None)))
                else Some (Some ar))
               (\<lambda>rest. case rest of None \<Rightarrow> Some (False, c)
                | Some ar1 \<Rightarrow>
                    (let icell2 = as_index (rd32 c (cell_ix icell1 CELL_AND));
                         ix = rd32 c (cell_ix icell2 BCELL_EXTRA)
                     in case ix of
                          None \<Rightarrow> if ar1 = 0 then Some (False, c)
                                  else matchesLeft_loop c char0 r icell2 ar1
                        | Some x \<Rightarrow>
                            if x \<le> BCELL_EXTRA_MAX then
                              (if x \<noteq> 0 \<and> extra_iu c ar1 r x \<noteq> 0
                               then Some (True, set_result c ar1 r (extra_iu c ar1 r x))
                               else let icell3 = rd32 c (cell_ix icell2 BCELL_NEXT_AND)
                                    in if icell3 = Some 0 then Some (False, c)
                                       else if ar1 = 0 then Some (False, c)
                                       else matchesLeft_loop c char0 r (as_index icell3) ar1)
                            else if ar1 = 0 then Some (False, c)
                            else matchesLeft_loop c char0 r icell2 ar1))))"

definition matchesLeft :: "container \<Rightarrow> nat \<Rightarrow> int \<Rightarrow> int \<Rightarrow> (bool \<times> container) option" where
  "matchesLeft c iroot i r = matchesLeft_loop c (hdr c CHAR0_SLOT) r (Some iroot) i"

text \<open>The outer loop of \<^verbatim>\<open>matches(iroot, i)\<close>; \<open>i\<close> is the parameter, \<open>al\<close> the cursor.\<close>

partial_function (option) matches_loop ::
  "container \<Rightarrow> int \<Rightarrow> int \<Rightarrow> nat option \<Rightarrow> int \<Rightarrow> (bool \<times> container) option"
where
  "matches_loop c char0 i icell al0 =
     (let ch = rd8 c al0; al = al0 + 1
      in Option.bind (matches_seek c char0 ch icell) (\<lambda>found.
         case found of None \<Rightarrow> Some (False, c)
         | Some (icell1, v, bl) \<Rightarrow>
             (let n = seg_length v - 1
              in Option.bind
               (if n \<noteq> 0 then
                  (if al + n > haystackLen c then Some None
                   else Option.bind (matches_rest c al (bl + 1) (al + n))
                          (\<lambda>ok. Some (if ok then Some (al + n) else None)))
                else Some (Some al))
               (\<lambda>rest. case rest of None \<Rightarrow> Some (False, c)
                | Some al1 \<Rightarrow>
                    (let icell2 = as_index (rd32 c (cell_ix icell1 CELL_AND));
                         ix = rd32 c (cell_ix icell2 BCELL_EXTRA)
                     in case ix of
                          None \<Rightarrow> if al1 = haystackLen c then Some (False, c)
                                  else matches_loop c char0 i icell2 al1
                        | Some x \<Rightarrow>
                            if x \<le> BCELL_EXTRA_MAX then
                              (if x \<noteq> 0 \<and> extra_iu c i al1 x \<noteq> 0
                               then Some (True, set_result c i al1 (extra_iu c i al1 x))
                               else
                                 Option.bind
                                   (let ialt = rd32 c (cell_ix icell2 BCELL_ALT_AND)
                                    in if ialt \<noteq> Some 0
                                       then matchesLeft_loop c char0 al1 (as_index ialt) i
                                       else Some (False, c))
                                   (\<lambda>(hit, c'). if hit then Some (True, c')
                                      else let inext = rd32 c (cell_ix icell2 BCELL_NEXT_AND)
                                           in if inext = Some 0 then Some (False, c)
                                              else if al1 = haystackLen c then Some (False, c)
                                              else matches_loop c char0 i (as_index inext) al1))
                            else if al1 = haystackLen c then Some (False, c)
                            else matches_loop c char0 i icell2 al1)))))"

definition matches :: "container \<Rightarrow> nat \<Rightarrow> int \<Rightarrow> (bool \<times> container) option" where
  "matches c iroot i = matches_loop c (hdr c CHAR0_SLOT) i (Some iroot) i"

section \<open>serialize and unserialize\<close>

text \<open>
  \<^verbatim>\<open>serialize()\<close> without an encoder: the words \<^verbatim>\<open>0 .. (char1 + 3 >>> 2) - 1\<close> of the buffer.
  Constructing the \<^verbatim>\<open>Uint32Array\<close> view throws when it would exceed the buffer.
\<close>

definition serialize :: "container \<Rightarrow> error + u32 list" where
  "serialize c =
     (let n = unat (drop_bit 2 (word_of_int (hdr c CHAR1_SLOT + 3) :: u32))
      in if n \<le> buflen c then Inr (map (buf32 c) [0..<n]) else Inl RangeError)"

text \<open>\<^verbatim>\<open>this.buf32.set(selfie)\<close>: throws when the source is longer than the target.\<close>

definition buf32_set :: "container \<Rightarrow> u32 list \<Rightarrow> error + container" where
  "buf32_set c selfie =
     (if length selfie \<le> buflen c
      then Inr (c\<lparr>buf32 := (\<lambda>k. if k < length selfie then selfie ! k else buf32 c k)\<rparr>)
      else Inl RangeError)"

text \<open>
  The image handed to \<^verbatim>\<open>unserialize\<close> is an array of numbers, which \<^verbatim>\<open>buf32.set\<close> stores as
  32-bit words, or a string, which is the work of a decoder.
\<close>

datatype selfie = Words "u32 list" | Encoded string

text \<open>
  The decoder is a collaborator that is not in \<^verbatim>\<open>strie.js\<close>; it is a parameter here.
  \<^verbatim>\<open>decodeSize(selfie)\<close> is a number of bytes; \<^verbatim>\<open>decode(selfie, buffer)\<close> is given the
  \<^verbatim>\<open>ArrayBuffer\<close>, that is its length in words and its content, and leaves a new content, or
  throws.
\<close>

record decoder =
  decodeSize :: "string \<Rightarrow> int"
  decode :: "string \<Rightarrow> nat \<Rightarrow> (nat \<Rightarrow> u32) \<Rightarrow> error + (nat \<Rightarrow> u32)"

text \<open>
  \<^verbatim>\<open>unserialize(selfie, decoder)\<close>. \<^verbatim>\<open>selfie.length << 2\<close> is a 32-bit signed value.
  \<^verbatim>\<open>new Uint8Array(byteLength)\<close> throws a RangeError when the host cannot allocate that many
  bytes: \<open>alloc n\<close> tells whether it can allocate \<open>n\<close> bytes.
\<close>

definition unserialize ::
  "container \<Rightarrow> selfie \<Rightarrow> decoder \<Rightarrow> (nat \<Rightarrow> bool) \<Rightarrow> error + bool \<times> container" where
  "unserialize c selfie dec alloc =
     (let byteLength = (case selfie of
                          Encoded s \<Rightarrow> decodeSize dec s
                        | Words ws \<Rightarrow> to_int32 (int (length ws) * 4))
      in if byteLength = 0 then Inr (False, c)
         else
           let byteLength' = roundToPageSize byteLength;
               grow = (byteLength' > 4 * int (buflen c))
           in if grow \<and> \<not> alloc (nat byteLength') then Inl RangeError
              else
                let c1 = (if grow then c\<lparr>buf32 := (\<lambda>_. 0), buflen := nat byteLength' div 4\<rparr>
                          else c)
                in case selfie of
                     Encoded s \<Rightarrow>
                       (case decode dec s (buflen c1) (buf32 c1) of
                          Inl e \<Rightarrow> Inl e
                        | Inr m \<Rightarrow> Inr (True, c1\<lparr>buf32 := m\<rparr>))
                   | Words ws \<Rightarrow>
                       (case buf32_set c1 ws of
                          Inl e \<Rightarrow> Inl e
                        | Inr c2 \<Rightarrow> Inr (True, c2)))"

section \<open>indexOf\<close>

text \<open>
  The inner \<^verbatim>\<open>while\<close> loop of \<^verbatim>\<open>indexOf\<close>: \<open>True\<close> when the needle was compared to
  its end (\<^verbatim>\<open>return haystackLeft\<close>), \<open>False\<close> when the loop ends on a differing byte.
\<close>

partial_function (option) indexOf_cmp :: "container \<Rightarrow> int \<Rightarrow> int \<Rightarrow> int \<Rightarrow> bool option"
where
  "indexOf_cmp c i j needleRight =
     (if rd8 c i = rd8 c j
      then (if j + 1 = needleRight then Some True
            else indexOf_cmp c (i + 1) (j + 1) needleRight)
      else Some False)"

partial_function (option) indexOf_loop ::
  "container \<Rightarrow> int \<Rightarrow> int \<Rightarrow> int \<Rightarrow> int \<Rightarrow> int option"
where
  "indexOf_loop c haystackLeft haystackEnd needleLeft needleRight =
     Option.bind (indexOf_cmp c haystackLeft needleLeft needleRight) (\<lambda>hit.
       if hit then Some haystackLeft
       else if haystackLeft + 1 = haystackEnd then Some (- 1)
       else indexOf_loop c (haystackLeft + 1) haystackEnd needleLeft needleRight)"

definition indexOf :: "container \<Rightarrow> int \<Rightarrow> int \<Rightarrow> int \<Rightarrow> int \<Rightarrow> int option" where
  "indexOf c haystackLeft haystackEnd needleLeft needleLen =
     (let haystackEnd' = haystackEnd - needleLen
      in if haystackEnd' < haystackLeft then Some (- 1)
         else let needleLeft' = needleLeft + hdr c CHAR0_SLOT;
                  needleRight = needleLeft' + needleLen
              in indexOf_loop c haystackLeft haystackEnd' needleLeft' needleRight)"

text \<open>\<^verbatim>\<open>lastIndexOf\<close> and \<^verbatim>\<open>startsWith\<close> run the same inner loop.\<close>

partial_function (option) lastIndexOf_loop ::
  "container \<Rightarrow> int \<Rightarrow> int \<Rightarrow> int \<Rightarrow> int \<Rightarrow> int option"
where
  "lastIndexOf_loop c haystackLeft haystackBeg needleLeft needleRight =
     Option.bind (indexOf_cmp c haystackLeft needleLeft needleRight) (\<lambda>hit.
       if hit then Some haystackLeft
       else if haystackLeft = haystackBeg then Some (- 1)
       else lastIndexOf_loop c (haystackLeft - 1) haystackBeg needleLeft needleRight)"

definition lastIndexOf :: "container \<Rightarrow> int \<Rightarrow> int \<Rightarrow> int \<Rightarrow> int \<Rightarrow> int option" where
  "lastIndexOf c haystackBeg haystackEnd needleLeft needleLen =
     (let haystackLeft = haystackEnd - needleLen
      in if haystackLeft < haystackBeg then Some (- 1)
         else let needleLeft' = needleLeft + hdr c CHAR0_SLOT;
                  needleRight = needleLeft' + needleLen
              in lastIndexOf_loop c haystackLeft haystackBeg needleLeft' needleRight)"

definition startsWith :: "container \<Rightarrow> int \<Rightarrow> int \<Rightarrow> int \<Rightarrow> int \<Rightarrow> int option" where
  "startsWith c haystackLeft haystackRight needleLeft needleLen =
     (if haystackLeft < 0 \<or> haystackLeft + needleLen > haystackRight then Some 0
      else let needleLeft' = needleLeft + hdr c CHAR0_SLOT;
               needleRight = needleLeft' + needleLen
           in map_option (\<lambda>hit. if hit then 1 else 0)
                (indexOf_cmp c haystackLeft needleLeft' needleRight))"

section \<open>Example states\<close>

text \<open>A container made with no options and a handler that rejects everything.\<close>

definition fresh :: container where
  "fresh = new_container 0 0 (\<lambda>_ _ _. 0)"

text \<open>A container made with no options and a handler that accepts everything.\<close>

definition fresh_yes :: container where
  "fresh_yes = new_container 0 0 (\<lambda>_ _ _. 1)"

text \<open>
  One trie holding the pattern \<^verbatim>\<open>a\<close> (pivot 0, accepted without condition); the haystack
  was \<^verbatim>\<open>ba\<close> and is now \<^verbatim>\<open>b\<close>, so that byte 1 of the window is stale.
\<close>

definition stale_state :: container where
  "stale_state =
     (case createOne fresh of Inr (r, c1) \<Rightarrow>
      case storeString c1 ''a'' of Inr (off, c2) \<Rightarrow>
      case add c2 r off 1 0 of Some (Inr (b, c3)) \<Rightarrow>
        set_haystack (set_haystack (setExtra c3 b 1) ''ba'') ''b'')"

definition stale_root :: nat where
  "stale_root = (case createOne fresh of Inr (r, c1) \<Rightarrow> r)"

text \<open>The needle \<^verbatim>\<open>ab\<close> stored at offset 0 of the character region, the haystack \<^verbatim>\<open>xab\<close>.\<close>

definition needle_state :: container where
  "needle_state = (case storeString fresh ''ab'' of Inr (off, c) \<Rightarrow> set_haystack c ''xab'')"

text \<open>One trie holding the pattern \<^verbatim>\<open>ab\<close> (pivot 0, accepted without condition), and the
  haystack \<^verbatim>\<open>ab\<close>.\<close>

definition ab_state :: container where
  "ab_state =
     (case createOne fresh of Inr (r, c1) \<Rightarrow>
      case storeString c1 ''ab'' of Inr (off, c2) \<Rightarrow>
      case add c2 r off 2 0 of Some (Inr (b, c3)) \<Rightarrow>
        set_haystack (setExtra c3 b 1) ''ab'')"

text \<open>
  One trie holding the pattern \<^verbatim>\<open>xa\<close> with pivot 1 (left part \<^verbatim>\<open>x\<close>, right part \<^verbatim>\<open>a\<close>),
  accepted without condition; the haystack was \<^verbatim>\<open>xa\<close> and is now \<^verbatim>\<open>x\<close>.
\<close>

definition xa_state :: container where
  "xa_state =
     (case createOne fresh of Inr (r, c1) \<Rightarrow>
      case storeString c1 ''xa'' of Inr (off, c2) \<Rightarrow>
      case add c2 r off 2 1 of Some (Inr (b, c3)) \<Rightarrow>
        set_haystack (set_haystack (setExtra c3 b 1) ''xa'') ''x'')"

text \<open>
  One trie into which the pattern \<^verbatim>\<open>a\<close> was inserted with pivot 1 (left part \<^verbatim>\<open>a\<close>, empty
  right part); then the string \<^verbatim>\<open>b\<close> was stored, at offset 1 of the character region.
\<close>

definition zero_right_state :: container where
  "zero_right_state =
     (case createOne fresh of Inr (r, c1) \<Rightarrow>
      case storeString c1 ''a'' of Inr (off, c2) \<Rightarrow>
      case add c2 r off 1 1 of Some (Inr (b, c3)) \<Rightarrow>
      case storeString c3 ''b'' of Inr (off', c4) \<Rightarrow> c4)"

section \<open>Auxiliary notions\<close>

text \<open>
  What the spec asks of a stored pattern \<open>(l, r)\<close> at the position \<open>i\<close> of the haystack \<open>H\<close>, in
  its words: \<^verbatim>\<open>H[i-len(l) .. i] == l\<close> and \<^verbatim>\<open>H[i .. i+len(r)] == r\<close>.
\<close>

definition spec_pattern_at :: "string \<Rightarrow> nat \<Rightarrow> string \<Rightarrow> string \<Rightarrow> bool" where
  "spec_pattern_at H i l r \<longleftrightarrow>
     length l \<le> i \<and> take (length l) (drop (i - length l) H) = l \<and> take (length r) (drop i H) = r"

text \<open>Two containers that differ in the result fields \<^verbatim>\<open>$l\<close>, \<^verbatim>\<open>$r\<close>, \<^verbatim>\<open>$iu\<close> at most.\<close>

definition same_buf :: "container \<Rightarrow> container \<Rightarrow> bool" where
  "same_buf c c' \<longleftrightarrow> buf32 c' = buf32 c \<and> buflen c' = buflen c \<and> haystackLen c' = haystackLen c
     \<and> extraHandler c' = extraHandler c"

section \<open>Basic facts about the buffer\<close>

lemmas slot_defs = HAYSTACK_SIZE_def HAYSTACK_SIZE_SLOT_def TRIE0_SLOT_def TRIE1_SLOT_def
  CHAR0_SLOT_def CHAR1_SLOT_def TRIE0_START_def HAYSTACK_START_def

lemmas cell_defs = CELL_AND_def CELL_OR_def SEGMENT_INFO_def BCELL_NEXT_AND_def
  BCELL_ALT_AND_def BCELL_EXTRA_def CELL_BYTE_LENGTH_def MIN_FREE_CELL_BYTE_LENGTH_def


lemmas eval_simps = Let_def wr32_def rd32_def rd8_def wr8_def hdr_def slot_defs cell_defs
  to_u32_def bytes_of_def set_haystack_def cell_ix_def as_index_def seg_offset_def seg_length_def
  byte_of_def allocateCell_def addCell_def setExtra_def toSegmentInfo_def seg_word_def le_max_def
  gt_max_def BCELL_EXTRA_MAX_def extra_iu_def set_result_def

lemma buflen_wr32 [simp]: "buflen (wr32 c k v) = buflen c"
  by (simp add: wr32_def split: option.splits)

lemma fields_wr32 [simp]:
  "haystackLen (wr32 c k v) = haystackLen c" "extraHandler (wr32 c k v) = extraHandler c"
  "res_l (wr32 c k v) = res_l c" "res_r (wr32 c k v) = res_r c" "res_iu (wr32 c k v) = res_iu c"
  by (simp_all add: wr32_def split: option.splits)

lemma buf32_wr32:
  "buf32 (wr32 c (Some n) v) m = (if m = n \<and> n < buflen c then v else buf32 c m)"
  by (simp add: wr32_def)

lemma rd32_wr32:
  "rd32 (wr32 c (Some n) v) (Some m) =
     (if m < buflen c then Some (if m = n then v else buf32 c m) else None)"
  by (simp add: rd32_def wr32_def)

lemma rd8_wr32: "nat i div 4 \<noteq> n \<Longrightarrow> rd8 (wr32 c (Some n) v) i = rd8 c i"
  by (simp add: rd8_def wr32_def)

lemma roundToPageSize_0: "roundToPageSize 0 = 0"
  by (simp add: roundToPageSize_def PAGE_SIZE_def)

lemma fresh_eq:
  "fresh = \<lparr>buf32 = (\<lambda>_. 0)(513 := 2068, 514 := 2068, 515 := 262144, 516 := 262144),
     buflen = 131072, haystackLen = 0, extraHandler = (\<lambda>_ _ _. 0),
     res_l = 0, res_r = 0, res_iu = 0\<rparr>"
  by (simp add: fresh_def new_container_def Let_def roundToPageSize_0 PAGE_SIZE_def wr32_def
      rd32_def to_u32_def slot_defs)

lemma stale_state_eq:
  "stale_state = \<lparr>buf32 = (\<lambda>_. 0)
        (513 := 2068, 515 := 262144, 518 := 0, 516 := 262145, 65536 := 97,
           519 := 16777216, 514 := 2092, 521 := 0, 517 := 520, 520 := 0,
           522 := 1, 0 := 24930),
        buflen = 131072, haystackLen = 1, extraHandler = \<lambda>_ _ _. 0,
        res_l = 0, res_r = 0, res_iu = 0\<rparr>"
  by (simp add: stale_state_def fresh_eq createOne_def storeString_def add_def addLeft_def eval_simps)

section \<open>reset\<close>

text \<open>
  Claim C10. For every container (whose buffer holds the header, as every buffer made by the
  constructor and the operations does), \<^verbatim>\<open>reset()\<close> sets the \<^verbatim>\<open>trie1\<close> slot to the value of
  \<^verbatim>\<open>trie0\<close> and the \<^verbatim>\<open>char1\<close> slot to the value of \<^verbatim>\<open>char0\<close>, and changes nothing else: the
  buffer length, every other word of the buffer (the \<^verbatim>\<open>trie0\<close> and \<^verbatim>\<open>char0\<close> slots among
  them), every byte outside the two slots (the haystack bytes among them), \<^verbatim>\<open>haystackLen\<close>,
  the handler and the three result fields are unchanged.
\<close>

theorem reset_frame:
  assumes "CHAR1_SLOT < buflen c"
  shows "rd32 (reset c) (Some TRIE1_SLOT) = rd32 c (Some TRIE0_SLOT)
       \<and> rd32 (reset c) (Some CHAR1_SLOT) = rd32 c (Some CHAR0_SLOT)
       \<and> buflen (reset c) = buflen c
       \<and> (\<forall>k. k \<noteq> TRIE1_SLOT \<and> k \<noteq> CHAR1_SLOT \<longrightarrow> rd32 (reset c) (Some k) = rd32 c (Some k))
       \<and> (\<forall>i. nat i div 4 \<noteq> TRIE1_SLOT \<and> nat i div 4 \<noteq> CHAR1_SLOT \<longrightarrow> rd8 (reset c) i = rd8 c i)
       \<and> haystackLen (reset c) = haystackLen c
       \<and> extraHandler (reset c) = extraHandler c
       \<and> res_l (reset c) = res_l c \<and> res_r (reset c) = res_r c \<and> res_iu (reset c) = res_iu c"
  using assms
  by (simp add: reset_def Let_def rd32_wr32 rd8_wr32 to_u32_def slot_defs rd32_def buf32_wr32)

theorem reset_frame_witness:
  "CHAR1_SLOT < buflen stale_state
   \<and> rd32 stale_state (Some TRIE1_SLOT) = Some 2092
   \<and> rd32 (reset stale_state) (Some TRIE1_SLOT) = Some 2068
   \<and> rd32 stale_state (Some CHAR1_SLOT) = Some 262145
   \<and> rd32 (reset stale_state) (Some CHAR1_SLOT) = Some 262144"
proof -
  have h: "CHAR1_SLOT < buflen stale_state"
    by (simp add: stale_state_eq slot_defs)
  have v: "rd32 stale_state (Some TRIE0_SLOT) = Some 2068"
    "rd32 stale_state (Some CHAR0_SLOT) = Some 262144"
    "rd32 stale_state (Some TRIE1_SLOT) = Some 2092"
    "rd32 stale_state (Some CHAR1_SLOT) = Some 262145"
    by (simp_all add: stale_state_eq slot_defs rd32_def)
  from reset_frame [OF h]
  have "rd32 (reset stale_state) (Some TRIE1_SLOT) = rd32 stale_state (Some TRIE0_SLOT)"
    and "rd32 (reset stale_state) (Some CHAR1_SLOT) = rd32 stale_state (Some CHAR0_SLOT)"
    by simp_all
  with h v show ?thesis by simp
qed

section \<open>unserialize\<close>

lemma and_not_mask_push_drop: "(x::int) AND NOT (mask n) = push_bit n (drop_bit n x)"
  by (rule bit_eqI) (auto simp: bit_simps)

lemma and_not_mask_int: "(x::int) AND NOT (mask n) = x - x mod 2 ^ n"
  using bits_ident [of n x] by (simp add: and_not_mask_push_drop take_bit_eq_mod)

lemma word_and_not_page: "(word_of_int x :: u32) AND NOT (word_of_int 131071) = word_of_int (x AND NOT (mask 17))"
proof -
  have "(131071::int) = mask 17" by (simp add: mask_eq_exp_minus_1)
  then show ?thesis by (simp only: of_int_and_eq of_int_not_eq)
qed

lemma sint_word_of_int_small: "0 \<le> y \<Longrightarrow> y < 2^31 \<Longrightarrow> sint (word_of_int y :: u32) = y"
  by (simp add: signed_of_int signed_take_bit_int_eq_self)

lemma roundToPageSize_eq:
  assumes "0 \<le> v" "v + 131071 < 2^31"
  shows "roundToPageSize v = (v + 131071) div 131072 * 131072"
proof -
  let ?x = "v + 131071"
  have e: "v + int PAGE_SIZE - 1 = ?x" "int PAGE_SIZE - 1 = 131071"
    by (simp_all add: PAGE_SIZE_def)
  have a: "?x AND NOT (mask 17) = ?x - ?x mod 131072"
    by (simp add: and_not_mask_int)
  have b: "0 \<le> ?x - ?x mod 131072" "?x - ?x mod 131072 < 2^31"
    using assms by (auto simp: mod_int_pos_iff intro: order.strict_trans1)
  have "sint ((word_of_int ?x :: u32) AND NOT (word_of_int 131071)) = ?x - ?x mod 131072"
    unfolding word_and_not_page a using b by (rule sint_word_of_int_small)
  also have "\<dots> = ?x div 131072 * 131072"
    by (simp add: minus_mod_eq_div_mult)
  finally show ?thesis unfolding roundToPageSize_def e .
qed

lemma round_ge: "(v::int) \<le> (v + 131071) div 131072 * 131072"
proof -
  have "(v + 131071) div 131072 * 131072 = (v + 131071) - (v + 131071) mod 131072"
    by (simp add: minus_mod_eq_div_mult)
  moreover have "(v + 131071) mod 131072 < 131072"
    by simp
  ultimately show ?thesis by linarith
qed

lemma le_nat_div4: "4 * int n \<le> need \<Longrightarrow> n \<le> nat need div 4"
proof -
  assume "4 * int n \<le> need"
  then have "n * 4 \<le> nat need" by linarith
  then show ?thesis by (simp add: less_eq_div_iff_mult_less_eq)
qed

text \<open>
  For an array of \<open>n\<close> words with \<open>4 * n + PAGE_SIZE \<le> 2 ^ 31\<close>, and a host that can allocate
  the rounded byte length, \<^verbatim>\<open>unserialize\<close> returns false, leaving the container as it is, if
  and only if the array is empty; for a non-empty one it replaces the buffer by a zeroed one of
  the byte length rounded up to the page size when that exceeds the current buffer length,
  copies the words in, whatever they are, and returns true.
\<close>

lemma unserialize_words:
  assumes "4 * int (length ws) + int PAGE_SIZE \<le> 2 ^ 31"
    and "alloc (nat ((4 * int (length ws) + 131071) div 131072 * 131072))"
  shows "unserialize c (Words ws) dec alloc =
     (if ws = [] then Inr (False, c)
      else let need = (4 * int (length ws) + 131071) div 131072 * 131072;
               c1 = (if need > 4 * int (buflen c)
                     then c\<lparr>buf32 := (\<lambda>_. 0), buflen := nat need div 4\<rparr> else c)
           in Inr (True, c1\<lparr>buf32 := (\<lambda>k. if k < length ws then ws ! k else buf32 c1 k)\<rparr>))"
proof (cases "ws = []")
  case True
  then show ?thesis by (simp add: unserialize_def to_int32_def)
next
  case False
  let ?v = "4 * int (length ws)"
  have v: "0 < ?v" "?v + 131071 < 2^31"
    using False assms by (simp_all add: PAGE_SIZE_def)
  have "sint (word_of_int ?v :: u32) = ?v"
    by (rule sint_word_of_int_small) (use v in simp_all)
  then have bl: "to_int32 (int (length ws) * 4) = ?v"
    unfolding to_int32_def by (simp only: mult.commute)
  have r: "roundToPageSize ?v = (?v + 131071) div 131072 * 131072"
    using v by (intro roundToPageSize_eq) simp_all
  define need where "need = (?v + 131071) div 131072 * 131072"
  have ge: "?v \<le> need"
    unfolding need_def by (rule round_ge)
  then have dv: "length ws \<le> nat need div 4"
    by (rule le_nat_div4)
  have nz: "?v \<noteq> 0" using v by simp
  have al: "alloc (nat need)" using assms(2) by (simp add: need_def)
  show ?thesis
  proof (cases "need > 4 * int (buflen c)")
    case True
    then show ?thesis
      using False dv nz al
      by (simp add: unserialize_def bl r Let_def buf32_set_def flip: need_def)
  next
    case False
    with ge have "4 * int (length ws) \<le> 4 * int (buflen c)" by linarith
    then have "length ws \<le> buflen c" by simp
    then show ?thesis
      using \<open>ws \<noteq> []\<close> False nz
      by (simp add: unserialize_def bl r Let_def buf32_set_def flip: need_def)
  qed
qed

text \<open>
  Claim C9: the code misses it by an overflow. \<^verbatim>\<open>unserialize\<close> is written to return
  false on an empty image only, but it takes the byte length of an array from
  \<^verbatim>\<open>selfie.length << 2\<close>, a 32-bit value: an array of \<open>2 ^ 30\<close> words is not empty, its byte
  length \<open>2 ^ 32\<close> is not zero, and \<^verbatim>\<open>unserialize\<close> returns false on it and copies nothing,
  whatever the decoder and the host are.
\<close>

theorem unserialize_false_on_large_array:
  "Words (replicate (2 ^ 30) 0) \<noteq> Words []
   \<and> 4 * int (length (replicate (2 ^ 30) (0 :: u32))) = 2 ^ 32
   \<and> unserialize fresh (Words (replicate (2 ^ 30) 0)) dec alloc = Inr (False, fresh)"
  by (simp add: unserialize_def to_int32_def)

section \<open>indexOf\<close>

lemma needle_state_eq:
  "needle_state = \<lparr>buf32 = (\<lambda>_. 0)
        (513 := 2068, 514 := 2068, 515 := 262144, 516 := 262146,
           65536 := 25185, 0 := 6447480),
        buflen = 131072, haystackLen = 3, extraHandler = \<lambda>_ _ _. 0,
        res_l = 0, res_r = 0, res_iu = 0\<rparr>"
  by (simp add: needle_state_def fresh_eq storeString_def eval_simps)

text \<open>
  Claim C5: \<^verbatim>\<open>indexOf(hL, hR, nL, nLen)\<close> returns the leftmost position in the inclusive range
  \<open>[hL, hR - nLen]\<close> at which the needle occurs. The code leaves its loop when the position
  reaches \<open>hR - nLen\<close>, before comparing there: in the haystack \<^verbatim>\<open>xab\<close> the needle \<^verbatim>\<open>ab\<close> occurs
  at position 1 = 3 - 2, \<^verbatim>\<open>indexOf(0, 3, 0, 2)\<close> returns -1, and \<^verbatim>\<open>lastIndexOf(0, 3, 0, 2)\<close>
  returns 1.
\<close>

theorem indexOf_skips_last_position:
  "rd8 needle_state 1 = rd8 needle_state (hdr needle_state CHAR0_SLOT + 0)
   \<and> rd8 needle_state 2 = rd8 needle_state (hdr needle_state CHAR0_SLOT + 1)
   \<and> indexOf needle_state 0 3 0 2 = Some (- 1)
   \<and> lastIndexOf needle_state 0 3 0 2 = Some 1"
  by (simp add: needle_state_eq indexOf_def indexOf_loop.simps indexOf_cmp.simps
      lastIndexOf_def lastIndexOf_loop.simps eval_simps)

section \<open>matches\<close>

text \<open>
  Claim C8. \<^verbatim>\<open>matches\<close> compares the first byte of a segment with the haystack byte at the
  cursor without comparing the cursor with \<^verbatim>\<open>haystackLen\<close>; the test \<^verbatim>\<open>ar > aR\<close> covers
  the rest of the segment only. In \<open>stale_state\<close> the stored one-byte pattern \<^verbatim>\<open>a\<close> is accepted
  at \<open>i = haystackLen = 1\<close> on the stale byte at position 1, with \<^verbatim>\<open>$r\<close> = 2.
\<close>

theorem matches_accepts_past_haystackLen:
  "haystackLen stale_state = 1
   \<and> matches stale_state stale_root (haystackLen stale_state)
       = Some (True, set_result stale_state 1 2 (- 1))
   \<and> haystackLen stale_state < res_r (set_result stale_state 1 2 (- 1))"
proof -
  have r: "stale_root = 517"
    by (simp add: stale_root_def fresh_eq createOne_def eval_simps)
  show ?thesis
    by (simp add: r stale_state_eq matches_def matches_loop.simps matches_seek.simps eval_simps)
qed

lemma same_buf_refl [simp]: "same_buf c c" "same_buf c (set_result c l r iu)"
  by (simp_all add: same_buf_def set_result_def)

lemma matchesLeft_loop_res:
  assumes "matchesLeft_loop c char0 r icell ar0 = Some y"
  shows "same_buf c (snd y) \<and> (fst y \<longrightarrow> res_r (snd y) = r)"
  apply (induct rule: matchesLeft_loop.raw_induct [OF _ assms])
  apply (auto simp: Let_def set_result_def same_buf_def split: option.splits if_splits prod.splits Option.bind_splits)
  done

lemma matches_loop_bound:
  assumes "matches_loop c char0 i icell al0 = Some y"
  shows "same_buf c (snd y) \<and> (al0 < haystackLen c \<longrightarrow> fst y \<longrightarrow> res_r (snd y) \<le> haystackLen c)"
  apply (induct rule: matches_loop.raw_induct [OF _ assms])
  apply (auto simp: Let_def set_result_def same_buf_def split: option.splits if_splits prod.splits Option.bind_splits dest!: matchesLeft_loop_res)
  done


lemma ab_state_eq:
  "ab_state = \<lparr>buf32 = (\<lambda>_. 0)
        (513 := 2068, 515 := 262144, 518 := 0, 516 := 262146, 65536 := 25185,
           519 := 33554432, 514 := 2092, 521 := 0, 517 := 520, 520 := 0,
           522 := 1, 0 := 25185),
        buflen = 131072, haystackLen = 2, extraHandler = \<lambda>_ _ _. 0,
        res_l = 0, res_r = 0, res_iu = 0\<rparr>"
  by (simp add: ab_state_def fresh_eq createOne_def storeString_def add_def addLeft_def eval_simps)

lemma matches_ab_state:
  "matches ab_state stale_root 0 = Some (True, set_result ab_state 0 2 (- 1))"
proof -
  have r: "stale_root = 517"
    by (simp add: stale_root_def fresh_eq createOne_def eval_simps)
  show ?thesis
    by (simp add: r ab_state_eq matches_def matches_loop.simps matches_seek.simps
        matches_rest.simps eval_simps)
qed

lemma buf32_wr8_other: "k \<noteq> nat i div 4 \<Longrightarrow> buf32 (wr8 c i b) k = buf32 c k"
  by (simp add: wr8_def)

lemma buflen_wr8 [simp]: "buflen (wr8 c i b) = buflen c"
  by (simp add: wr8_def)

lemma buflen_wr8s [simp]: "buflen (wr8s c i bs) = buflen c"
  by (induction bs arbitrary: c i) simp_all

lemma buf32_wr8s_other:
  "0 \<le> i \<Longrightarrow> i + int (length bs) \<le> 4 * int k \<Longrightarrow> buf32 (wr8s c i bs) k = buf32 c k"
proof (induction bs arbitrary: c i)
  case Nil
  then show ?case by simp
next
  case (Cons b bs)
  have "nat i div 4 \<noteq> k" using Cons.prems by auto
  with Cons show ?case by (simp add: buf32_wr8_other)
qed


section \<open>Where the haystack length lives\<close>

lemma slot_set_haystack:
  "hdr (set_haystack c s) HAYSTACK_SIZE_SLOT = hdr c HAYSTACK_SIZE_SLOT"
proof -
  have "int (length (take HAYSTACK_SIZE (bytes_of s))) \<le> 4 * int HAYSTACK_SIZE_SLOT"
    by (simp add: slot_defs)
  then show ?thesis
    by (simp add: set_haystack_def hdr_def buf32_wr8s_other HAYSTACK_START_def)
qed

text \<open>
  Claim C7 is the layout that \<^verbatim>\<open>strie.js\<close> documents (``2048-2051: number of significant
  characters in the haystack'', the slot \<^verbatim>\<open>HAYSTACK_SIZE_SLOT\<close>); the code does not keep it: it
  never writes that slot and holds the length in the property \<^verbatim>\<open>haystackLen\<close>. In
  \<open>ab_state\<close>, reached by the constructor, \<^verbatim>\<open>createOne\<close>, \<^verbatim>\<open>storeString\<close>, \<^verbatim>\<open>add\<close>,
  \<^verbatim>\<open>setExtra\<close> and the handoff of the haystack \<^verbatim>\<open>ab\<close>, the haystack has 2 bytes and the slot
  at byte offset 2048 holds 0; \<^verbatim>\<open>matches\<close> accepts the pattern of two bytes there, which a
  bound of 0 read from the slot would refuse, and it does so whatever the slot holds.
\<close>

theorem haystackLen_slot_not_maintained:
  "haystackLen ab_state = 2 \<and> hdr ab_state HAYSTACK_SIZE_SLOT = 0
   \<and> matches ab_state stale_root 0 = Some (True, set_result ab_state 0 2 (- 1))
   \<and> matches (ab_state\<lparr>haystackLen := 0\<rparr>) stale_root 0 = Some (False, ab_state\<lparr>haystackLen := 0\<rparr>)
   \<and> (case matches (wr32 ab_state (Some HAYSTACK_SIZE_SLOT) 7) stale_root 0 of
         Some (ok, c') \<Rightarrow> ok \<and> res_r c' = 2 | None \<Rightarrow> False)"
proof -
  have r: "stale_root = 517"
    by (simp add: stale_root_def fresh_eq createOne_def eval_simps)
  have 1: "matches (ab_state\<lparr>haystackLen := 0\<rparr>) stale_root 0 = Some (False, ab_state\<lparr>haystackLen := 0\<rparr>)"
    by (simp add: r ab_state_eq matches_def matches_loop.simps matches_seek.simps
        matches_rest.simps eval_simps)
  have 2: "(case matches (wr32 ab_state (Some HAYSTACK_SIZE_SLOT) 7) stale_root 0 of
         Some (ok, c') \<Rightarrow> ok \<and> res_r c' = 2 | None \<Rightarrow> False)"
    by (simp add: r ab_state_eq matches_def matches_loop.simps matches_seek.simps
        matches_rest.simps eval_simps set_result_def)
  show ?thesis
    using matches_ab_state 1 2 by (simp add: ab_state_eq hdr_def slot_defs)
qed


section \<open>A match beyond the haystack against the stored patterns\<close>

lemma xa_state_eq:
  "xa_state = \<lparr>buf32 = (\<lambda>_. 0)
        (513 := 2068, 515 := 262144, 518 := 0, 516 := 262146, 65536 := 24952,
           519 := 16777217, 522 := 0, 517 := 520, 520 := 0, 524 := 0,
           521 := 523, 525 := 16777216, 514 := 2116, 526 := 0, 527 := 0,
           523 := 526, 528 := 1, 0 := 24952),
        buflen = 131072, haystackLen = 1, extraHandler = \<lambda>_ _ _. 0,
        res_l = 0, res_r = 0, res_iu = 0\<rparr>"
  by (simp add: xa_state_def fresh_eq createOne_def storeString_def add_def addLeft_def eval_simps)

text \<open>
  Claim C1: the code breaks it at a position behind the haystack. In \<open>xa_state\<close> the trie holds the one
  pattern \<open>(x, a)\<close> and the haystack is \<^verbatim>\<open>x\<close>, of length 1. At position 1 the haystack has no
  byte left, so no stored pattern has its right part there; \<^verbatim>\<open>matches\<close> compares the first
  byte of the segment with the byte at the cursor without comparing the cursor with
  \<^verbatim>\<open>haystackLen\<close>, finds the stale \<^verbatim>\<open>a\<close> behind the haystack and returns true, with
  \<^verbatim>\<open>$l\<close> = 0 and \<^verbatim>\<open>$r\<close> = 2.
\<close>

theorem matches_true_without_pattern:
  "haystackLen xa_state = 1
   \<and> bytes_of ''x'' = [0x78] \<and> rd8 xa_state 0 = Some 0x78
   \<and> \<not> spec_pattern_at ''x'' 1 ''x'' ''a''
   \<and> matches xa_state stale_root 1 = Some (True, set_result xa_state 0 2 (- 1))"
proof -
  have r: "stale_root = 517"
    by (simp add: stale_root_def fresh_eq createOne_def eval_simps)
  have "matches xa_state stale_root 1 = Some (True, set_result xa_state 0 2 (- 1))"
    by (simp add: r xa_state_eq matches_def matches_loop.simps matches_seek.simps
        matches_rest.simps matchesLeft_def matchesLeft_loop.simps matchesLeft_seek.simps
        matchesLeft_rest.simps eval_simps)
  then show ?thesis
    by (simp add: xa_state_eq spec_pattern_at_def eval_simps)
qed

section \<open>A segment of length 0\<close>

lemma zero_right_state_eq:
  "zero_right_state = \<lparr>buf32 = (\<lambda>_. 0)
        (513 := 2068, 515 := 262144, 518 := 0, 65536 := 97,
           519 := 1, 522 := 0, 517 := 520, 520 := 0, 524 := 0, 521 := 523,
           525 := 16777216, 514 := 2116, 526 := 0, 527 := 0, 528 := 0,
           523 := 526, 516 := 262146, 65536 := 25185),
        buflen = 131072, haystackLen = 0, extraHandler = \<lambda>_ _ _. 0,
        res_l = 0, res_r = 0, res_iu = 0\<rparr>"
  by (simp add: zero_right_state_def fresh_eq createOne_def storeString_def add_def addLeft_def
      eval_simps)

text \<open>
  Once the loop of \<^verbatim>\<open>add\<close> is at cell 0, whose words are the first bytes of the haystack
  window, and reads a segment length 0 and a next cell 0 there, it does not return.
\<close>

lemma add_loop_at_cell_0:
  assumes "add_loop c aL0 aR pivot icell al = Some y"
  shows "icell = Some 0 \<longrightarrow>
     \<not> (seg_length (to_u32 (rd32 c (Some SEGMENT_INFO))) = 0
        \<and> as_index (rd32 c (Some BCELL_NEXT_AND)) = Some 0)"
  apply (induct rule: add_loop.raw_induct [OF _ assms])
  apply (auto simp: Let_def split: option.splits if_splits)
  done

text \<open>
  Claim C6: the code breaks it for an empty right part. \<^verbatim>\<open>add\<close> returns 0 for an empty pattern
  but has no case for an empty right part: with \<open>pivot = n\<close> it writes the segment
  \<^verbatim>\<open>toSegmentInfo(aL0, n, n)\<close>, of length 0, into a normal cell. In \<open>zero_right_state\<close> the root
  cell of the trie, a normal cell, has word 2 equal to 1, which is not above
  \<^verbatim>\<open>BCELL_EXTRA_MAX\<close>. The loop of \<^verbatim>\<open>add\<close> itself tells a boundary cell by the length 0: the
  next insertion into this trie, of the pattern \<^verbatim>\<open>b\<close> with pivot 0, takes the root cell for a
  boundary cell, runs off the trie to cell 0 and never returns.
\<close>

theorem add_writes_segment_of_length_0:
  "rd32 zero_right_state (Some (stale_root + SEGMENT_INFO)) = Some 1
   \<and> (1 :: u32) \<le> BCELL_EXTRA_MAX \<and> seg_length 1 = 0
   \<and> add zero_right_state stale_root 1 1 0 = None"
proof -
  have r: "stale_root = 517"
    by (simp add: stale_root_def fresh_eq createOne_def eval_simps)
  have "add_loop zero_right_state 1 1 0 (Some 0) 0 = None"
  proof (cases "add_loop zero_right_state 1 1 0 (Some 0) 0")
    case None
    then show ?thesis .
  next
    case (Some y)
    from add_loop_at_cell_0 [OF this] show ?thesis
      by (simp add: zero_right_state_eq eval_simps)
  qed
  then have "add zero_right_state stale_root 1 1 0 = None"
    by (simp add: r add_def zero_right_state_eq add_loop.simps [of _ _ _ _ "Some 517"]
         add_loop.simps [of _ _ _ _ "Some 520"] eval_simps)
  then show ?thesis
    by (simp add: r zero_right_state_eq eval_simps BCELL_EXTRA_MAX_def)
qed

end
